theory Spec2Isabelle
  imports Main
begin

section \<open>JavaScript strings\<close>

text \<open>
  A string is the list of its code units; the model covers code units below 256, one
  \<^typ>\<open>char\<close> each. A string is truthy when it is not empty.
\<close>

text \<open>
  \<^verbatim>\<open>String.prototype.trim\<close> strips white space and line terminators from both ends:
  TAB, LF, VT, FF, CR, SPACE and NBSP are the ones below 256.
\<close>

definition js_whitespace :: "char \<Rightarrow> bool" where
  "js_whitespace c \<longleftrightarrow>
     c = CHR 0x09 \<or> c = CHR 0x0A \<or> c = CHR 0x0B \<or> c = CHR 0x0C \<or> c = CHR 0x0D
     \<or> c = CHR 0x20 \<or> c = CHR 0xA0"

definition trim :: "string \<Rightarrow> string" where
  "trim s = rev (dropWhile js_whitespace (rev (dropWhile js_whitespace s)))"

text \<open>
  \<^verbatim>\<open>s.split(sep)\<close> for a one-character separator: the pieces between the separators,
  in order; the empty string gives one empty piece.
\<close>

fun js_split :: "char \<Rightarrow> string \<Rightarrow> string list" where
  "js_split sep [] = [[]]"
| "js_split sep (c # cs) =
     (if c = sep then [] # js_split sep cs
      else (case js_split sep cs of
              [] \<Rightarrow> [[c]]
            | piece # pieces \<Rightarrow> (c # piece) # pieces))"

section \<open>Values and exceptions\<close>

text \<open>
  What \<^verbatim>\<open>JSON.parse\<close> returns. A number is kept as the literal it was written with;
  an object keeps its members in the order of the text.
\<close>

datatype json =
    JNull
  | JBool bool
  | JNumber string
  | JString string
  | JArray "json list"
  | JObject "(string \<times> json) list"

text \<open>
  A thrown value, with its \<^verbatim>\<open>message\<close>. \<^verbatim>\<open>new Error(m)\<close> is \<open>Error m\<close>;
  \<^verbatim>\<open>JSON.parse\<close> throws a \<open>SyntaxError\<close>.
\<close>

datatype exn = Error (message: string) | SyntaxError (message: string)

text \<open>The error kinds of the services, by the message each is thrown with.\<close>

definition NotFoundOrPrivate :: exn where
  "NotFoundOrPrivate = Error ''Lichess user not found or private.''"

definition FetchFailed :: exn where
  "FetchFailed = Error ''Could not fetch game PGN.''"

definition InvalidAnalysisFormat :: exn where
  "InvalidAnalysisFormat = Error ''Invalid analysis format received from AI.''"

section \<open>services/lichessService.ts\<close>

text \<open>
  The outcome of \<^verbatim>\<open>await fetch(url, ...)\<close>: the promise rejects (no connection), or
  it yields a response, \<open>Http ok text\<close>, with its \<^verbatim>\<open>ok\<close> flag and its body text.
\<close>

datatype http_reply = Rejected exn | Http bool string

text \<open>
  \<^verbatim>\<open>lines.map(line => JSON.parse(line))\<close>: the lines are parsed from left to right and
  the first exception ends the call. \<open>JSON_parse\<close> is the runtime's \<^verbatim>\<open>JSON.parse\<close>:
  \<open>Inl e\<close> when it throws \<open>e\<close>.
\<close>

fun parse_lines :: "(string \<Rightarrow> exn + json) \<Rightarrow> string list \<Rightarrow> exn + json list" where
  "parse_lines JSON_parse [] = Inr []"
| "parse_lines JSON_parse (line # lines) =
     (case JSON_parse line of
        Inl e \<Rightarrow> Inl e
      | Inr v \<Rightarrow>
          (case parse_lines JSON_parse lines of
             Inl e \<Rightarrow> Inl e
           | Inr vs \<Rightarrow> Inr (v # vs)))"

definition games_url :: "string \<Rightarrow> string" where
  "games_url username =
     ''https://lichess.org/api/games/user/'' @ username @ ''?max=10&moves=false&pgnInJson=false''"

definition fetchRecentLichessGames ::
  "(string \<Rightarrow> http_reply) \<Rightarrow> (string \<Rightarrow> exn + json) \<Rightarrow> string \<Rightarrow> exn + json list" where
  "fetchRecentLichessGames fetch JSON_parse username =
     (case fetch (games_url username) of
        Rejected e \<Rightarrow> Inl e
      | Http ok text \<Rightarrow>
          if \<not> ok then Inl NotFoundOrPrivate
          else parse_lines JSON_parse (js_split CHR 0x0A (trim text)))"

definition export_url :: "string \<Rightarrow> string" where
  "export_url gameId =
     ''https://lichess.org/game/export/'' @ gameId @ ''?moves=true&pgnInJson=false''"

definition fetchLichessGamePgn :: "(string \<Rightarrow> http_reply) \<Rightarrow> string \<Rightarrow> exn + string" where
  "fetchLichessGamePgn fetch gameId =
     (case fetch (export_url gameId) of
        Rejected e \<Rightarrow> Inl e
      | Http ok text \<Rightarrow> if \<not> ok then Inl FetchFailed else Inr text)"

section \<open>services/geminiService.ts\<close>

text \<open>
  The outcome of \<^verbatim>\<open>await ai.models.generateContent(...)\<close>: the promise rejects, or it
  yields a response whose \<^verbatim>\<open>text\<close> is a string or \<^verbatim>\<open>undefined\<close>. The model, the system
  instruction and the response schema of the request are constants; the remote side is a
  function of the request's \<^verbatim>\<open>contents\<close>.
\<close>

datatype ai_reply = AiRejected exn | AiResponse "string option"

text \<open>
  One round trip to a remote side: the reply it gives to what is sent, together with the
  record of what was sent. A function that makes round trips returns their records beside
  its result, in order; one that makes none returns the empty list.
\<close>

definition request :: "('a \<Rightarrow> 'b) \<Rightarrow> 'a \<Rightarrow> 'b \<times> 'a list" where
  "request remote sent = (remote sent, [sent])"

text \<open>\<^verbatim>\<open>JSON.parse\<close> converts its argument to a string first.\<close>

definition to_string :: "string option \<Rightarrow> string" where
  "to_string text = (case text of None \<Rightarrow> ''undefined'' | Some t \<Rightarrow> t)"

text \<open>
  The first component is what the promise of \<^verbatim>\<open>analyzeGame\<close> settles to, the second the
  \<^verbatim>\<open>contents\<close> of the requests it sent to the AI service.
  The request is outside the \<^verbatim>\<open>try\<close>, so a rejection passes through; whatever
  \<^verbatim>\<open>JSON.parse\<close> throws is replaced by the format error; what it returns is returned
  as it is (\<^verbatim>\<open>as FullAnalysis\<close> is a type assertion and checks nothing).
\<close>

definition analyzeGame ::
  "(string \<Rightarrow> ai_reply) \<Rightarrow> (string \<Rightarrow> exn + json) \<Rightarrow> string
     \<Rightarrow> (exn + json) \<times> string list" where
  "analyzeGame generateContent JSON_parse pgn =
     (case request generateContent (''Please analyze this chess game: '' @ pgn) of
        (response, sent) \<Rightarrow>
          (case response of
             AiRejected e \<Rightarrow> (Inl e, sent)
           | AiResponse text \<Rightarrow>
               (case JSON_parse (to_string text) of
                  Inl e \<Rightarrow> (Inl InvalidAnalysisFormat, sent)
                | Inr result \<Rightarrow> (Inr result, sent))))"

text \<open>
  A field of the analysis schema is present in a parsed value when the value is an object
  with a member of that name.
\<close>

definition has_field :: "json \<Rightarrow> string \<Rightarrow> bool" where
  "has_field v name = (case v of JObject members \<Rightarrow> name \<in> fst ` set members | _ \<Rightarrow> False)"

section \<open>The chess library\<close>

text \<open>
  The application uses chess.js through a handful of operations. The library is not part of
  the repository, so it is a parameter \<open>E\<close> of everything that follows: a record of the
  operations over a type \<open>'g\<close> of game objects. An operation that throws is \<open>None\<close>.
  A game object is mutable in the library; here an operation returns the object after the
  call.
\<close>

datatype move_arg =
    San string
  | FromTo string string string

record 'g chess =
  create :: "'g"
  create_from :: "string \<Rightarrow> 'g option"
  fen :: "'g \<Rightarrow> string"
  loadPgn :: "'g \<Rightarrow> string \<Rightarrow> 'g option"
  history :: "'g \<Rightarrow> string list"
  move :: "'g \<Rightarrow> move_arg option \<Rightarrow> 'g option"
  pgn_of :: "'g \<Rightarrow> string"

text \<open>
  \<^item> \<open>create\<close> is \<^verbatim>\<open>new Chess()\<close> and \<open>create_from f\<close> is \<^verbatim>\<open>new Chess(f)\<close>;
  \<^item> \<open>fen g\<close>, \<open>history g\<close> and \<open>pgn_of g\<close> are \<^verbatim>\<open>g.fen()\<close>, \<^verbatim>\<open>g.history()\<close> and
    \<^verbatim>\<open>g.pgn()\<close>;
  \<^item> \<open>loadPgn g p\<close> is \<^verbatim>\<open>g.loadPgn(p)\<close>;
  \<^item> \<open>move g (Some (San m))\<close> is \<^verbatim>\<open>g.move(m)\<close> for a string, \<open>move g (Some (FromTo a b p))\<close>
    is \<^verbatim>\<open>g.move({from: a, to: b, promotion: p})\<close>, and \<open>move g None\<close> is
    \<^verbatim>\<open>g.move(undefined)\<close>; \<open>None\<close> as a result stands for an exception and for a falsy
    result alike, since \<^verbatim>\<open>makeAMove\<close> treats both the same way.
\<close>

section \<open>The session state of App\<close>

datatype InputMode = Manual | Pgn | Lichess

datatype Tab = AnalysisTab | ChatTab

datatype Role = User | Assistant

record ChatMessage =
  role :: Role
  content :: string

text \<open>
  One field for each \<^verbatim>\<open>useState\<close> of the component. \<^verbatim>\<open>analysis\<close> holds a parsed value
  or \<^verbatim>\<open>null\<close>, which is \<open>JNull\<close>; \<^verbatim>\<open>error\<close> holds a string or \<^verbatim>\<open>null\<close>.
\<close>

record 'g session =
  game :: "'g"
  pgn :: string
  username :: string
  inputMode :: InputMode
  recentGames :: "json list"
  isSearchingLichess :: bool
  showGameSelector :: bool
  isAnalyzing :: bool
  analysis :: json
  moveHistory :: "string list"
  currentMoveIndex :: int
  error :: "string option"
  activeTab :: Tab
  chatMessages :: "ChatMessage list"
  userQuery :: string
  isThinking :: bool

text \<open>The initial values given to \<^verbatim>\<open>useState\<close>.\<close>

definition initial_session :: "'g chess \<Rightarrow> 'g session" where
  "initial_session E =
     \<lparr> game = create E, pgn = [], username = [], inputMode = Manual, recentGames = [],
       isSearchingLichess = False, showGameSelector = False, isAnalyzing = False,
       analysis = JNull, moveHistory = [], currentMoveIndex = -1, error = None,
       activeTab = AnalysisTab, chatMessages = [], userQuery = [], isThinking = False \<rparr>"

section \<open>The handlers of App\<close>

text \<open>
  Each handler is a function from the state in which it is called to the state it leaves.
  An \<^verbatim>\<open>async\<close> handler is taken as one step, from its call to the moment its promise
  settles, with no other event in between; the outcome of the request it awaits is given
  by a parameter. The setters a handler calls before an exception stay in effect.
\<close>

subsection \<open>The effect on \<^verbatim>\<open>pgn\<close>\<close>

text \<open>
  \<^verbatim>\<open>useEffect(..., [pgn])\<close>: the body of the effect. An empty \<^verbatim>\<open>pgn\<close> is falsy and
  nothing happens; \<^verbatim>\<open>loadPgn\<close> throwing is caught and sets the error.
\<close>

definition pgn_effect :: "'g chess \<Rightarrow> 'g session \<Rightarrow> 'g session" where
  "pgn_effect E s =
     (if pgn s = [] then s
      else (case loadPgn E (create E) (pgn s) of
              None \<Rightarrow> s\<lparr>error := Some ''Invalid PGN data.''\<rparr>
            | Some tempGame \<Rightarrow>
                s\<lparr>moveHistory := history E tempGame,
                  currentMoveIndex := int (length (history E tempGame)) - 1,
                  game := tempGame\<rparr>))"

text \<open>
  React runs the effect after a render in which its dependency \<^verbatim>\<open>pgn\<close> differs from the
  previous render's, and not otherwise. \<open>old\<close> is the state before the handler, \<open>new\<close>
  the state its setters produce.
\<close>

definition rerender :: "'g chess \<Rightarrow> 'g session \<Rightarrow> 'g session \<Rightarrow> 'g session" where
  "rerender E old new = (if pgn new = pgn old then new else pgn_effect E new)"

subsection \<open>Moves on the board\<close>

definition makeAMove :: "'g chess \<Rightarrow> move_arg \<Rightarrow> 'g session \<Rightarrow> bool \<times> 'g session" where
  "makeAMove E mv s =
     (case create_from E (fen E (game s)) of
        None \<Rightarrow> (False, s)
      | Some gameCopy \<Rightarrow>
          (case move E gameCopy (Some mv) of
             None \<Rightarrow> (False, s)
           | Some moved \<Rightarrow>
               (True, rerender E s (s\<lparr>game := moved, pgn := pgn_of E moved, error := None\<rparr>))))"

definition onDrop :: "'g chess \<Rightarrow> string \<Rightarrow> string \<Rightarrow> 'g session \<Rightarrow> bool \<times> 'g session" where
  "onDrop E sourceSquare targetSquare s = makeAMove E (FromTo sourceSquare targetSquare ''q'') s"

subsection \<open>Loading a game\<close>

text \<open>The file's text once it is read; no file selected is \<open>None\<close>.\<close>

definition handlePgnUpload :: "'g chess \<Rightarrow> string option \<Rightarrow> 'g session \<Rightarrow> 'g session" where
  "handlePgnUpload E file s =
     (case file of
        None \<Rightarrow> s
      | Some fileText \<Rightarrow> rerender E s (s\<lparr>pgn := fileText, inputMode := Pgn\<rparr>))"

definition handleLichessSearch ::
  "(string \<Rightarrow> http_reply) \<Rightarrow> (string \<Rightarrow> exn + json) \<Rightarrow> 'g session \<Rightarrow> 'g session" where
  "handleLichessSearch fetch JSON_parse s =
     (if username s = [] then s
      else (case fetchRecentLichessGames fetch JSON_parse (username s) of
              Inr games \<Rightarrow>
                s\<lparr>error := None, recentGames := games, showGameSelector := True,
                  isSearchingLichess := False\<rparr>
            | Inl e \<Rightarrow> s\<lparr>error := Some (message e), isSearchingLichess := False\<rparr>))"

definition selectLichessGame ::
  "'g chess \<Rightarrow> (string \<Rightarrow> http_reply) \<Rightarrow> string \<Rightarrow> 'g session \<Rightarrow> 'g session" where
  "selectLichessGame E fetch gameId s =
     (case fetchLichessGamePgn fetch gameId of
        Inr pgnData \<Rightarrow>
          rerender E s
            (s\<lparr>showGameSelector := False, pgn := pgnData, inputMode := Lichess,
               isAnalyzing := False\<rparr>)
      | Inl e \<Rightarrow> s\<lparr>showGameSelector := False, error := Some (message e), isAnalyzing := False\<rparr>)"

subsection \<open>Analysis\<close>

text \<open>
  The second component lists the \<^verbatim>\<open>contents\<close> of the requests sent to the AI service
  during the step: none when the guard returns early, and otherwise those that
  \<^verbatim>\<open>analyzeGame\<close> sent.
\<close>

definition startAnalysis ::
  "'g chess \<Rightarrow> (string \<Rightarrow> ai_reply) \<Rightarrow> (string \<Rightarrow> exn + json) \<Rightarrow> 'g session
     \<Rightarrow> 'g session \<times> string list" where
  "startAnalysis E generateContent JSON_parse s =
     (if pgn s = [] \<and> length (moveHistory s) = 0
      then (s\<lparr>error := Some ''Please input some moves or upload a game first.''\<rparr>, [])
      else
        (let arg = (if pgn s \<noteq> [] then pgn s else pgn_of E (game s));
             s1 = s\<lparr>isAnalyzing := True, analysis := JNull, error := None\<rparr>
         in case analyzeGame generateContent JSON_parse arg of
              (outcome, sent) \<Rightarrow>
                (case outcome of
                   Inr result \<Rightarrow>
                     (s1\<lparr>analysis := result, activeTab := AnalysisTab, isAnalyzing := False\<rparr>,
                      sent)
                 | Inl e \<Rightarrow>
                     (s1\<lparr>error := Some ''Analysis failed. Please try again.'',
                         isAnalyzing := False\<rparr>, sent))))"

subsection \<open>Reset\<close>

definition resetGame :: "'g chess \<Rightarrow> 'g session \<Rightarrow> 'g session" where
  "resetGame E s =
     rerender E s
       (s\<lparr>game := create E, pgn := [], moveHistory := [], currentMoveIndex := -1,
          analysis := JNull, chatMessages := [], error := None\<rparr>)"

subsection \<open>Navigation\<close>

text \<open>\<^verbatim>\<open>history[i]\<close>: \<^verbatim>\<open>undefined\<close> outside the array.\<close>

definition js_index :: "'a list \<Rightarrow> int \<Rightarrow> 'a option" where
  "js_index xs i = (if 0 \<le> i \<and> i < int (length xs) then Some (xs ! nat i) else None)"

text \<open>
  \<^verbatim>\<open>for (let i = 0; i <= index; i++) newGame.move(history[i])\<close>, from the value \<open>i\<close> of
  the loop variable on; \<open>None\<close> when a move throws.
\<close>

function replay_loop :: "'g chess \<Rightarrow> string list \<Rightarrow> int \<Rightarrow> int \<Rightarrow> 'g \<Rightarrow> 'g option" where
  "replay_loop E hist index i newGame =
     (if i \<le> index then
        (case move E newGame (map_option San (js_index hist i)) of
           None \<Rightarrow> None
         | Some next \<Rightarrow> replay_loop E hist index (i + 1) next)
      else Some newGame)"
  by pat_completeness auto
termination
  by (relation "measure (\<lambda>(E, hist, index, i, newGame). nat (index + 1 - i))") auto

declare replay_loop.simps [simp del]

text \<open>
  An exception leaves the handler before any setter is called, so the state stays as it
  was. The handler does not set \<^verbatim>\<open>pgn\<close>, so the effect does not run after it.
\<close>

definition navigateToMove :: "'g chess \<Rightarrow> int \<Rightarrow> 'g session \<Rightarrow> 'g session" where
  "navigateToMove E index s =
     (if pgn s = [] then s
      else (case loadPgn E (create E) (pgn s) of
              None \<Rightarrow> s
            | Some tempGame \<Rightarrow>
                (case replay_loop E (history E tempGame) index 0 (create E) of
                   None \<Rightarrow> s
                 | Some newGame \<Rightarrow> s\<lparr>game := newGame, currentMoveIndex := index\<rparr>)))"

subsection \<open>Chat\<close>

text \<open>
  The arguments of one call of \<^verbatim>\<open>chatWithAssistant\<close>: the query, the PGN, the position,
  the previous messages and the analysis. The handler passes \<^verbatim>\<open>analysis || undefined\<close>;
  the record carries \<^verbatim>\<open>analysis\<close> and leaves that conversion to the client.
\<close>

record chat_call =
  call_query :: string
  call_pgn :: string
  call_fen :: string
  call_previous :: "ChatMessage list"
  call_analysis :: json

text \<open>
  The AI client \<^verbatim>\<open>chatWithAssistant\<close> is a parameter: \<open>Inl e\<close> when its promise rejects.
  The second component lists the calls of the client made during the step.
\<close>

definition handleSendChat ::
  "'g chess \<Rightarrow> (chat_call \<Rightarrow> exn + string) \<Rightarrow> 'g session \<Rightarrow> 'g session \<times> chat_call list" where
  "handleSendChat E chatWithAssistant s =
     (if trim (userQuery s) = [] \<or> isThinking s then (s, [])
      else
        (let query = userQuery s;
             newMessages = chatMessages s @ [\<lparr>role = User, content = query\<rparr>];
             s1 = s\<lparr>userQuery := [], chatMessages := newMessages, isThinking := True\<rparr>;
             call = \<lparr>call_query = query,
                     call_pgn = (if pgn s \<noteq> [] then pgn s else pgn_of E (game s)),
                     call_fen = fen E (game s),
                     call_previous = chatMessages s,
                     call_analysis = analysis s\<rparr>
         in case request chatWithAssistant call of
              (outcome, called) \<Rightarrow>
                (case outcome of
                   Inr response \<Rightarrow>
                     (s1\<lparr>chatMessages :=
                           newMessages @ [\<lparr>role = Assistant, content = response\<rparr>],
                         isThinking := False\<rparr>, called)
                 | Inl e \<Rightarrow>
                     (s1\<lparr>error := Some ''Chat failed. Check your API key or connection.'',
                         isThinking := False\<rparr>, called))))"

subsection \<open>The user's actions\<close>

text \<open>
  The actions that touch the game: a file upload, the choice of a game from the list, a
  piece dropped on the board, the two arrow buttons and the buttons of the move list (as
  far as they are enabled), and reset. A disabled button does nothing.
\<close>

datatype action =
    Upload "string option"
  | Select string http_reply
  | Drop string string
  | Previous
  | Next
  | Goto nat
  | Reset

fun step :: "'g chess \<Rightarrow> 'g session \<Rightarrow> action \<Rightarrow> 'g session" where
  "step E s (Upload file) = handlePgnUpload E file s"
| "step E s (Select gameId reply) = selectLichessGame E (\<lambda>url. reply) gameId s"
| "step E s (Drop sourceSquare targetSquare) = snd (onDrop E sourceSquare targetSquare s)"
| "step E s Previous =
     (if currentMoveIndex s < 0 then s else navigateToMove E (currentMoveIndex s - 1) s)"
| "step E s Next =
     (if currentMoveIndex s \<ge> int (length (moveHistory s)) - 1 then s
      else navigateToMove E (currentMoveIndex s + 1) s)"
| "step E s (Goto idx) =
     (if idx < length (moveHistory s) then navigateToMove E (int idx) s else s)"
| "step E s Reset = resetGame E s"

definition run :: "'g chess \<Rightarrow> action list \<Rightarrow> 'g session" where
  "run E actions = foldl (step E) (initial_session E) actions"

text \<open>
  The position obtained by applying the moves \<open>[0..index]\<close> of a move list to the starting
  position, when the library accepts them.
\<close>

primrec apply_moves :: "'g chess \<Rightarrow> string list \<Rightarrow> 'g \<Rightarrow> 'g option" where
  "apply_moves E [] g = Some g"
| "apply_moves E (m # ms) g =
     (case move E g (Some (San m)) of None \<Rightarrow> None | Some next \<Rightarrow> apply_moves E ms next)"

definition replayed_position :: "'g chess \<Rightarrow> string list \<Rightarrow> int \<Rightarrow> string option" where
  "replayed_position E moves index =
     map_option (fen E) (apply_moves E (take (nat (index + 1)) moves) (create E))"

text \<open>
  The invariant of the replay cursor, in two parts: the index lies in
  \<open>[-1, length moveHistory - 1]\<close>, and the board on display is the position after the
  moves \<open>[0..currentMoveIndex]\<close> of the move list.
\<close>

definition index_in_range :: "'g session \<Rightarrow> bool" where
  "index_in_range s \<longleftrightarrow>
     -1 \<le> currentMoveIndex s \<and> currentMoveIndex s \<le> int (length (moveHistory s)) - 1"

definition board_is_replay :: "'g chess \<Rightarrow> 'g session \<Rightarrow> bool" where
  "board_is_replay E s \<longleftrightarrow>
     replayed_position E (moveHistory s) (currentMoveIndex s) = Some (fen E (game s))"

section \<open>Concrete instances of the parameters\<close>

text \<open>
  The theorems below hold for every \<open>JSON_parse\<close>, every chess library and every remote
  side. To evaluate the handlers on concrete inputs, this section fixes one instance of
  each.
\<close>

subsection \<open>A JSON reader\<close>

text \<open>
  A reader for the JSON grammar (ECMA-404): white space, the three literals, numbers,
  strings with the two-character escapes, arrays and objects. It stands in for
  \<^verbatim>\<open>JSON.parse\<close> on the sample texts only, and differs from it elsewhere: a
  \<^verbatim>\<open>\u\<close> escape is outside the model's characters and is not accepted; an object keeps
  every member, also under a repeated name, where \<^verbatim>\<open>JSON.parse\<close> keeps the last; and
  every rejected text gets the same message. Each \<open>read_\<close> function returns what it read
  and the rest of the text.
\<close>

definition json_ws :: "char \<Rightarrow> bool" where
  "json_ws c \<longleftrightarrow> c = CHR 0x20 \<or> c = CHR 0x09 \<or> c = CHR 0x0A \<or> c = CHR 0x0D"

definition skip_ws :: "string \<Rightarrow> string" where
  "skip_ws cs = dropWhile json_ws cs"

definition is_digit :: "char \<Rightarrow> bool" where
  "is_digit c \<longleftrightarrow> c \<in> set ''0123456789''"

definition unescape :: "char \<Rightarrow> char option" where
  "unescape c =
     (if c = CHR 0x22 then Some (CHR 0x22)
      else if c = CHR 0x5C then Some (CHR 0x5C)
      else if c = CHR ''/'' then Some (CHR ''/'')
      else if c = CHR ''b'' then Some (CHR 0x08)
      else if c = CHR ''f'' then Some (CHR 0x0C)
      else if c = CHR ''n'' then Some (CHR 0x0A)
      else if c = CHR ''r'' then Some (CHR 0x0D)
      else if c = CHR ''t'' then Some (CHR 0x09)
      else None)"

text \<open>The characters of a string after its opening quote, up to the closing quote.\<close>

fun read_string :: "string \<Rightarrow> (string \<times> string) option" where
  "read_string [] = None"
| "read_string (c # cs) =
     (if c = CHR 0x22 then Some ([], cs)
      else if c = CHR 0x5C then
        (case cs of
           [] \<Rightarrow> None
         | e # rest \<Rightarrow>
             (case unescape e of
                None \<Rightarrow> None
              | Some x \<Rightarrow>
                  (case read_string rest of
                     None \<Rightarrow> None
                   | Some (str, rest') \<Rightarrow> Some (x # str, rest'))))
      else if (of_char c :: nat) < 32 then None
      else (case read_string cs of
              None \<Rightarrow> None
            | Some (str, rest) \<Rightarrow> Some (c # str, rest)))"

definition read_fraction :: "string \<Rightarrow> (string \<times> string) option" where
  "read_fraction cs =
     (case cs of
        [] \<Rightarrow> Some ([], cs)
      | c # rest \<Rightarrow>
          if c = CHR ''.'' then
            (if takeWhile is_digit rest = [] then None
             else Some (c # takeWhile is_digit rest, dropWhile is_digit rest))
          else Some ([], cs))"

definition read_sign :: "string \<Rightarrow> string \<Rightarrow> string \<times> string" where
  "read_sign signs cs =
     (case cs of
        [] \<Rightarrow> ([], cs)
      | c # rest \<Rightarrow> if c \<in> set signs then ([c], rest) else ([], cs))"

definition read_exponent :: "string \<Rightarrow> (string \<times> string) option" where
  "read_exponent cs =
     (case cs of
        [] \<Rightarrow> Some ([], cs)
      | c # rest \<Rightarrow>
          if c = CHR ''e'' \<or> c = CHR ''E'' then
            (case read_sign ''+-'' rest of
               (sign, rest') \<Rightarrow>
                 if takeWhile is_digit rest' = [] then None
                 else Some (c # sign @ takeWhile is_digit rest', dropWhile is_digit rest'))
          else Some ([], cs))"

definition read_number :: "string \<Rightarrow> (string \<times> string) option" where
  "read_number cs =
     (case read_sign ''-'' cs of
        (sign, rest) \<Rightarrow>
          (let digits = takeWhile is_digit rest in
           if digits = [] \<or> (hd digits = CHR ''0'' \<and> tl digits \<noteq> []) then None
           else
             (case read_fraction (dropWhile is_digit rest) of
                None \<Rightarrow> None
              | Some (fraction, rest') \<Rightarrow>
                  (case read_exponent rest' of
                     None \<Rightarrow> None
                   | Some (exponent, rest'') \<Rightarrow>
                       Some (sign @ digits @ fraction @ exponent, rest'')))))"

definition read_literal :: "string \<Rightarrow> json \<Rightarrow> string \<Rightarrow> (json \<times> string) option" where
  "read_literal word v cs =
     (if take (length word) cs = word then Some (v, drop (length word) cs) else None)"

text \<open>
  A value, the elements of an array after its bracket, and the members of an object after
  its brace. The first argument bounds the depth of the calls; \<open>None\<close> is a text that is
  not JSON.
\<close>

fun read_value :: "nat \<Rightarrow> string \<Rightarrow> (json \<times> string) option"
  and read_elements :: "nat \<Rightarrow> string \<Rightarrow> (json list \<times> string) option"
  and read_members :: "nat \<Rightarrow> string \<Rightarrow> ((string \<times> json) list \<times> string) option" where
  "read_value 0 cs = None"
| "read_value (Suc n) cs =
     (case skip_ws cs of
        [] \<Rightarrow> None
      | c # rest \<Rightarrow>
          if c = CHR ''{'' then
            (case skip_ws rest of
               [] \<Rightarrow> None
             | d # rest' \<Rightarrow>
                 if d = CHR ''}'' then Some (JObject [], rest')
                 else (case read_members n rest of
                         None \<Rightarrow> None
                       | Some (members, rest'') \<Rightarrow> Some (JObject members, rest'')))
          else if c = CHR ''['' then
            (case skip_ws rest of
               [] \<Rightarrow> None
             | d # rest' \<Rightarrow>
                 if d = CHR '']'' then Some (JArray [], rest')
                 else (case read_elements n rest of
                         None \<Rightarrow> None
                       | Some (elements, rest'') \<Rightarrow> Some (JArray elements, rest'')))
          else if c = CHR 0x22 then
            (case read_string rest of
               None \<Rightarrow> None
             | Some (str, rest') \<Rightarrow> Some (JString str, rest'))
          else if c = CHR ''t'' then read_literal ''true'' (JBool True) (c # rest)
          else if c = CHR ''f'' then read_literal ''false'' (JBool False) (c # rest)
          else if c = CHR ''n'' then read_literal ''null'' JNull (c # rest)
          else (case read_number (c # rest) of
                  None \<Rightarrow> None
                | Some (literal, rest') \<Rightarrow> Some (JNumber literal, rest')))"
| "read_elements 0 cs = None"
| "read_elements (Suc n) cs =
     (case read_value n cs of
        None \<Rightarrow> None
      | Some (v, rest) \<Rightarrow>
          (case skip_ws rest of
             [] \<Rightarrow> None
           | c # rest' \<Rightarrow>
               if c = CHR '']'' then Some ([v], rest')
               else if c = CHR '','' then
                 (case read_elements n rest' of
                    None \<Rightarrow> None
                  | Some (vs, rest'') \<Rightarrow> Some (v # vs, rest''))
               else None))"
| "read_members 0 cs = None"
| "read_members (Suc n) cs =
     (case skip_ws cs of
        [] \<Rightarrow> None
      | q # rest \<Rightarrow>
          if q \<noteq> CHR 0x22 then None
          else
            (case read_string rest of
               None \<Rightarrow> None
             | Some (name, rest1) \<Rightarrow>
                 (case skip_ws rest1 of
                    [] \<Rightarrow> None
                  | colon # rest2 \<Rightarrow>
                      if colon \<noteq> CHR '':'' then None
                      else
                        (case read_value n rest2 of
                           None \<Rightarrow> None
                         | Some (v, rest3) \<Rightarrow>
                             (case skip_ws rest3 of
                                [] \<Rightarrow> None
                              | c # rest4 \<Rightarrow>
                                  if c = CHR ''}'' then Some ([(name, v)], rest4)
                                  else if c = CHR '','' then
                                    (case read_members n rest4 of
                                       None \<Rightarrow> None
                                     | Some (members, rest5) \<Rightarrow>
                                         Some ((name, v) # members, rest5))
                                  else None)))))"

text \<open>
  The whole text is one value between white space. Twice the length of the text bounds the
  depth of the calls, since each nested call follows a character that was read.
\<close>

definition json_parse :: "string \<Rightarrow> exn + json" where
  "json_parse text =
     (case read_value (2 * length text + 2) text of
        None \<Rightarrow> Inl (SyntaxError ''Unexpected token in JSON'')
      | Some (v, rest) \<Rightarrow>
          if skip_ws rest = [] then Inr v else Inl (SyntaxError ''Unexpected token in JSON''))"

subsection \<open>A chess library over an opening book\<close>

text \<open>
  An instance of the library's interface that knows the opening 1. e4 e5 2. Nf3 and nothing
  else: four positions and the three moves between them. A game object holds the position
  it was set up from, the moves made since, and the current position, as a chess.js object
  does. Every other position, move and PGN text is rejected.
\<close>

record book_game =
  origin :: string
  played :: "string list"
  current :: string

definition fen0 :: string where
  "fen0 = ''rnbqkbnr/pppppppp/8/8/8/8/PPPPPPPP/RNBQKBNR w KQkq - 0 1''"

definition fen1 :: string where
  "fen1 = ''rnbqkbnr/pppppppp/8/8/4P3/8/PPPP1PPP/RNBQKBNR b KQkq - 0 1''"

definition fen2 :: string where
  "fen2 = ''rnbqkbnr/pppp1ppp/8/4p3/4P3/8/PPPP1PPP/RNBQKBNR w KQkq - 0 2''"

definition fen3 :: string where
  "fen3 = ''rnbqkbnr/pppp1ppp/8/4p3/4P3/5N2/PPPP1PPP/RNBQKB1R b KQkq - 1 2''"

text \<open>The moves of the book: position before, from, to, SAN, position after.\<close>

definition book_moves :: "(string \<times> string \<times> string \<times> string \<times> string) list" where
  "book_moves =
     [(fen0, ''e2'', ''e4'', ''e4'', fen1),
      (fen1, ''e7'', ''e5'', ''e5'', fen2),
      (fen2, ''g1'', ''f3'', ''Nf3'', fen3)]"

fun matches ::
  "string \<Rightarrow> move_arg option \<Rightarrow> string \<times> string \<times> string \<times> string \<times> string \<Rightarrow> bool" where
  "matches position None entry = False"
| "matches position (Some (San m)) (source, a, b, san, target) = (source = position \<and> san = m)"
| "matches position (Some (FromTo x y promotion)) (source, a, b, san, target) =
     (source = position \<and> a = x \<and> b = y)"

definition book_move :: "book_game \<Rightarrow> move_arg option \<Rightarrow> book_game option" where
  "book_move g mv =
     (case find (matches (current g) mv) book_moves of
        None \<Rightarrow> None
      | Some (source, a, b, san, target) \<Rightarrow>
          Some (g\<lparr>played := played g @ [san], current := target\<rparr>))"

definition book_create_from :: "string \<Rightarrow> book_game option" where
  "book_create_from f =
     (if f \<in> set [fen0, fen1, fen2, fen3] then Some \<lparr>origin = f, played = [], current = f\<rparr>
      else None)"

text \<open>
  A game set up from another position than the initial one prints that position in the
  \<^verbatim>\<open>SetUp\<close> and \<^verbatim>\<open>FEN\<close> tags of its PGN.
\<close>

definition tags :: "string \<Rightarrow> string" where
  "tags f =
     ''[SetUp '' @ [CHR 0x22] @ ''1'' @ [CHR 0x22] @ '']'' @ [CHR 0x0A]
     @ ''[FEN '' @ [CHR 0x22] @ f @ [CHR 0x22] @ '']'' @ [CHR 0x0A]"

text \<open>The games of the book, each with its PGN text.\<close>

definition book_games :: "(book_game \<times> string) list" where
  "book_games =
     [(\<lparr>origin = fen0, played = [], current = fen0\<rparr>, []),
      (\<lparr>origin = fen0, played = [''e4''], current = fen1\<rparr>, ''1. e4''),
      (\<lparr>origin = fen0, played = [''e4'', ''e5''], current = fen2\<rparr>, ''1. e4 e5''),
      (\<lparr>origin = fen0, played = [''e4'', ''e5'', ''Nf3''], current = fen3\<rparr>, ''1. e4 e5 2. Nf3''),
      (\<lparr>origin = fen1, played = [], current = fen1\<rparr>, tags fen1),
      (\<lparr>origin = fen1, played = [''e5''], current = fen2\<rparr>, tags fen1 @ [CHR 0x0A] @ ''1. ... e5''),
      (\<lparr>origin = fen1, played = [''e5'', ''Nf3''], current = fen3\<rparr>,
         tags fen1 @ [CHR 0x0A] @ ''1. ... e5 2. Nf3''),
      (\<lparr>origin = fen2, played = [], current = fen2\<rparr>, tags fen2),
      (\<lparr>origin = fen2, played = [''Nf3''], current = fen3\<rparr>, tags fen2 @ [CHR 0x0A] @ ''2. Nf3''),
      (\<lparr>origin = fen3, played = [], current = fen3\<rparr>, tags fen3)]"

definition book_pgn_of :: "book_game \<Rightarrow> string" where
  "book_pgn_of g =
     (case find (\<lambda>entry. fst entry = g) book_games of
        None \<Rightarrow> []
      | Some entry \<Rightarrow> snd entry)"

text \<open>
  The application calls \<^verbatim>\<open>loadPgn\<close> on a new game only; the game read from the text
  replaces it.
\<close>

definition book_loadPgn :: "book_game \<Rightarrow> string \<Rightarrow> book_game option" where
  "book_loadPgn g text = map_option fst (find (\<lambda>entry. snd entry = text) book_games)"

definition book :: "book_game chess" where
  "book =
     \<lparr> create = \<lparr>origin = fen0, played = [], current = fen0\<rparr>,
       create_from = book_create_from,
       fen = current,
       loadPgn = book_loadPgn,
       history = played,
       move = book_move,
       pgn_of = book_pgn_of \<rparr>"

subsection \<open>Sample inputs\<close>

text \<open>A remote side that answers every request with the same response.\<close>

definition always :: "'b \<Rightarrow> 'a \<Rightarrow> 'b" where
  "always reply anything = reply"

text \<open>Two game lists as the game server sends them: two games, and one cut off in its second line.\<close>

definition two_games :: string where
  \<open>two_games = ''{"id":"q7ZvsdUF","status":"mate"}'' @ [CHR 0x0A] @ ''{"id":"Xk3pLm9a","status":"draw"}'' @ [CHR 0x0A]\<close>

definition cut_off_games :: string where
  \<open>cut_off_games = ''{"id":"q7ZvsdUF","status":"mate"}'' @ [CHR 0x0A] @ ''{"id":"Xk3p''\<close>

text \<open>An analysis with every field of the schema but \<^verbatim>\<open>endgame\<close>.\<close>

definition phase :: json where
  "phase = JObject [(''score'', JNumber ''70''), (''feedback'', JString ''solid''), (''errors'', JArray [])]"

definition phase_text :: string where
  \<open>phase_text = ''{"score":70,"feedback":"solid","errors":[]}''\<close>

definition no_endgame :: json where
  "no_endgame =
     JObject [(''opening'', phase), (''middlegame'', phase), (''tactics'', phase),
              (''overallAdvice'', JString ''castle early''), (''referencedBooks'', JArray [])]"

definition no_endgame_text :: string where
  \<open>no_endgame_text =
     ''{"opening":'' @ phase_text @ '',"middlegame":'' @ phase_text @ '',"tactics":'' @ phase_text
     @ '',"overallAdvice":"castle early","referencedBooks":[]}''\<close>

text \<open>A response that stops in the middle of the object.\<close>

definition cut_off_text :: string where
  \<open>cut_off_text = ''{"opening":{"score":70,''\<close>

text \<open>A session after 1. e4 was loaded and analysed.\<close>

definition analysed :: "book_game session" where
  "analysed =
     (initial_session book)
       \<lparr>game := \<lparr>origin = fen0, played = [''e4''], current = fen1\<rparr>, pgn := ''1. e4'',
        moveHistory := [''e4''], currentMoveIndex := 0,
        analysis := JObject [(''overallAdvice'', JString ''castle early'')]\<rparr>"

section \<open>Properties of the game-server client\<close>

lemma js_split_not_Nil: "js_split sep s \<noteq> []"
  by (induction s) (auto split: list.splits)

lemma trim_whitespace_only:
  assumes "\<forall>c\<in>set s. js_whitespace c"
  shows "trim s = []"
proof -
  have left: "dropWhile js_whitespace s = []"
    using assms by (simp add: dropWhile_eq_Nil_conv)
  show ?thesis
    unfolding trim_def by (simp only: left rev.simps dropWhile.simps)
qed

lemma parse_lines_all:
  "(\<forall>l\<in>set ls. \<not> isl (P l)) \<Longrightarrow> parse_lines P ls = Inr (map (projr \<circ> P) ls)"
  by (induction ls) (auto split: sum.splits)

lemma parse_lines_some: "l \<in> set ls \<Longrightarrow> isl (P l) \<Longrightarrow> isl (parse_lines P ls)"
  by (induction ls) (auto split: sum.splits)

lemma parse_lines_not_empty: "ls \<noteq> [] \<Longrightarrow> parse_lines P ls \<noteq> Inr []"
  by (cases ls) (auto split: sum.splits)

text \<open>
  Claim C5. When the response is successful, the lines are those of the trimmed body. If
  \<^verbatim>\<open>JSON.parse\<close> accepts every line, the call returns one value per line, each the parse
  of its own line, in order. If it throws on any one line, the call fails: the result is an
  exception and carries no list.
\<close>

theorem listRecentGames_all_or_nothing:
  assumes "fetch (games_url user) = Http True body"
  shows "((\<forall>line\<in>set (js_split CHR 0x0A (trim body)). \<not> isl (JSON_parse line)) \<longrightarrow>
            fetchRecentLichessGames fetch JSON_parse user
              = Inr (map (projr \<circ> JSON_parse) (js_split CHR 0x0A (trim body))))
       \<and> (\<forall>line\<in>set (js_split CHR 0x0A (trim body)). isl (JSON_parse line) \<longrightarrow>
            isl (fetchRecentLichessGames fetch JSON_parse user))"
proof -
  have call: "fetchRecentLichessGames fetch JSON_parse user
      = parse_lines JSON_parse (js_split CHR 0x0A (trim body))"
    using assms by (simp add: fetchRecentLichessGames_def)
  show ?thesis
    unfolding call by (auto simp: parse_lines_all intro: parse_lines_some)
qed

theorem listRecentGames_all_or_nothing_witness:
  "fetchRecentLichessGames (always (Http True two_games)) json_parse ''lasker''
     = Inr [JObject [(''id'', JString ''q7ZvsdUF''), (''status'', JString ''mate'')],
            JObject [(''id'', JString ''Xk3pLm9a''), (''status'', JString ''draw'')]]
   \<and> isl (fetchRecentLichessGames (always (Http True cut_off_games)) json_parse ''lasker'')"
proof -
  have lines2: "js_split CHR 0x0A (trim two_games)
      = [''{'' @ [CHR 0x22] @ ''id'' @ [CHR 0x22] @ '':'' @ [CHR 0x22] @ ''q7ZvsdUF'' @ [CHR 0x22]
           @ '','' @ [CHR 0x22] @ ''status'' @ [CHR 0x22] @ '':'' @ [CHR 0x22] @ ''mate''
           @ [CHR 0x22] @ ''}'',
         ''{'' @ [CHR 0x22] @ ''id'' @ [CHR 0x22] @ '':'' @ [CHR 0x22] @ ''Xk3pLm9a'' @ [CHR 0x22]
           @ '','' @ [CHR 0x22] @ ''status'' @ [CHR 0x22] @ '':'' @ [CHR 0x22] @ ''draw''
           @ [CHR 0x22] @ ''}'']"
    by code_simp
  have good: "\<forall>line\<in>set (js_split CHR 0x0A (trim two_games)). \<not> isl (json_parse line)"
    unfolding lines2 by code_simp
  have parsed: "map (projr \<circ> json_parse) (js_split CHR 0x0A (trim two_games))
      = [JObject [(''id'', JString ''q7ZvsdUF''), (''status'', JString ''mate'')],
         JObject [(''id'', JString ''Xk3pLm9a''), (''status'', JString ''draw'')]]"
    unfolding lines2 by code_simp
  have cut: "js_split CHR 0x0A (trim cut_off_games)
      = [''{'' @ [CHR 0x22] @ ''id'' @ [CHR 0x22] @ '':'' @ [CHR 0x22] @ ''q7ZvsdUF'' @ [CHR 0x22]
           @ '','' @ [CHR 0x22] @ ''status'' @ [CHR 0x22] @ '':'' @ [CHR 0x22] @ ''mate''
           @ [CHR 0x22] @ ''}'',
         ''{'' @ [CHR 0x22] @ ''id'' @ [CHR 0x22] @ '':'' @ [CHR 0x22] @ ''Xk3p'']"
    by code_simp
  have bad: "isl (json_parse (''{'' @ [CHR 0x22] @ ''id'' @ [CHR 0x22] @ '':'' @ [CHR 0x22] @ ''Xk3p''))"
    by code_simp
  have ok: "always (Http True two_games) (games_url ''lasker'') = Http True two_games"
    and ko: "always (Http True cut_off_games) (games_url ''lasker'') = Http True cut_off_games"
    by (simp_all add: always_def)
  from listRecentGames_all_or_nothing [where fetch = "always (Http True two_games)"
      and user = "''lasker''" and body = two_games and JSON_parse = json_parse] ok good parsed
  have first: "fetchRecentLichessGames (always (Http True two_games)) json_parse ''lasker''
     = Inr [JObject [(''id'', JString ''q7ZvsdUF''), (''status'', JString ''mate'')],
            JObject [(''id'', JString ''Xk3pLm9a''), (''status'', JString ''draw'')]]"
    by simp
  from listRecentGames_all_or_nothing [where fetch = "always (Http True cut_off_games)"
      and user = "''lasker''" and body = cut_off_games and JSON_parse = json_parse] ko bad
  have second: "isl (fetchRecentLichessGames (always (Http True cut_off_games)) json_parse ''lasker'')"
    unfolding cut by simp
  from first second show ?thesis ..
qed

text \<open>
  Claim C9. A successful response whose body is empty or white space only trims to the empty
  string, which splits into one empty line; \<^verbatim>\<open>JSON.parse('')\<close> throws, and the call fails
  with that exception. Whatever the response, the call never returns the empty list.
\<close>

theorem listRecentGames_never_empty:
  "(fetch (games_url user) = Http True body \<longrightarrow> (\<forall>c\<in>set body. js_whitespace c) \<longrightarrow>
      JSON_parse [] = Inl e \<longrightarrow>
      fetchRecentLichessGames fetch JSON_parse user = Inl e)
   \<and> fetchRecentLichessGames fetch JSON_parse user \<noteq> Inr []"
proof (intro conjI impI)
  assume "fetch (games_url user) = Http True body" and "\<forall>c\<in>set body. js_whitespace c"
    and "JSON_parse [] = Inl e"
  then show "fetchRecentLichessGames fetch JSON_parse user = Inl e"
    by (simp add: fetchRecentLichessGames_def trim_whitespace_only)
next
  show "fetchRecentLichessGames fetch JSON_parse user \<noteq> Inr []"
    by (auto simp: fetchRecentLichessGames_def NotFoundOrPrivate_def js_split_not_Nil
        parse_lines_not_empty split: http_reply.splits)
qed

theorem listRecentGames_never_empty_witness:
  "js_whitespace CHR 0x20 \<and> js_whitespace CHR 0x0A \<and> js_whitespace CHR 0x09
   \<and> json_parse [] = Inl (SyntaxError ''Unexpected token in JSON'')
   \<and> fetchRecentLichessGames (always (Http True [CHR 0x20, CHR 0x0A, CHR 0x09])) json_parse ''lasker''
       = Inl (SyntaxError ''Unexpected token in JSON'')
   \<and> fetchRecentLichessGames (always (Http True [])) json_parse ''lasker''
       = Inl (SyntaxError ''Unexpected token in JSON'')"
proof -
  have ws: "\<forall>c\<in>set [CHR 0x20, CHR 0x0A, CHR 0x09]. js_whitespace c"
    by (simp add: js_whitespace_def)
  have empty: "json_parse [] = Inl (SyntaxError ''Unexpected token in JSON'')"
    by code_simp
  have "always (Http True [CHR 0x20, CHR 0x0A, CHR 0x09]) (games_url ''lasker'')
      = Http True [CHR 0x20, CHR 0x0A, CHR 0x09]"
    by (simp add: always_def)
  with listRecentGames_never_empty [of "always (Http True [CHR 0x20, CHR 0x0A, CHR 0x09])" "''lasker''"
      "[CHR 0x20, CHR 0x0A, CHR 0x09]" json_parse "SyntaxError ''Unexpected token in JSON''"] ws empty
  have blank: "fetchRecentLichessGames (always (Http True [CHR 0x20, CHR 0x0A, CHR 0x09])) json_parse ''lasker''
       = Inl (SyntaxError ''Unexpected token in JSON'')"
    by blast
  have "always (Http True []) (games_url ''lasker'') = Http True []"
    by (simp add: always_def)
  with listRecentGames_never_empty [of "always (Http True [])" "''lasker''" "[]" json_parse
      "SyntaxError ''Unexpected token in JSON''"] empty
  have none: "fetchRecentLichessGames (always (Http True [])) json_parse ''lasker''
       = Inl (SyntaxError ''Unexpected token in JSON'')"
    by simp
  from ws empty blank none show ?thesis by simp
qed

section \<open>Properties of navigation\<close>






text \<open>
  Claim C10. While \<^verbatim>\<open>pgn\<close> is the empty string, \<^verbatim>\<open>navigateToMove\<close> leaves the whole
  state as it is, for every index.
\<close>

theorem navigateTo_without_pgn: "pgn s = [] \<Longrightarrow> navigateToMove E index s = s"
  by (simp add: navigateToMove_def)

theorem navigateTo_without_pgn_witness:
  "pgn (analysed\<lparr>pgn := []\<rparr>) = []
   \<and> navigateToMove book (-1) (analysed\<lparr>pgn := []\<rparr>) = analysed\<lparr>pgn := []\<rparr>
   \<and> navigateToMove book 7 (analysed\<lparr>pgn := []\<rparr>) = analysed\<lparr>pgn := []\<rparr>"
proof -
  have empty: "pgn (analysed\<lparr>pgn := []\<rparr>) = []"
    by simp
  from empty navigateTo_without_pgn [OF empty, of book "-1"]
    navigateTo_without_pgn [OF empty, of book 7]
  show ?thesis
    by simp
qed

section \<open>Properties of moves on the board\<close>

text \<open>
  Claim C4. An attempt is illegal when the library rejects the move in the position on
  display. \<^verbatim>\<open>onDrop\<close> then returns \<^verbatim>\<open>false\<close> and the state is the one before the
  attempt: move list, index, board and error included.
\<close>

theorem illegal_move_ignored:
  assumes "\<forall>gameCopy. create_from E (fen E (game s)) = Some gameCopy \<longrightarrow>
             move E gameCopy (Some (FromTo sourceSquare targetSquare ''q'')) = None"
  shows "onDrop E sourceSquare targetSquare s = (False, s)"
  using assms by (auto simp: onDrop_def makeAMove_def split: option.splits)

theorem illegal_move_ignored_witness:
  "create_from book (fen book (game analysed)) = Some \<lparr>origin = fen1, played = [], current = fen1\<rparr>
   \<and> move book \<lparr>origin = fen1, played = [], current = fen1\<rparr> (Some (FromTo ''e7'' ''e4'' ''q'')) = None
   \<and> onDrop book ''e7'' ''e4'' analysed = (False, analysed)"
proof -
  have copy: "create_from book (fen book (game analysed))
      = Some \<lparr>origin = fen1, played = [], current = fen1\<rparr>"
    by code_simp
  have rejected: "move book \<lparr>origin = fen1, played = [], current = fen1\<rparr>
      (Some (FromTo ''e7'' ''e4'' ''q'')) = None"
    by code_simp
  from copy rejected
  have "\<forall>gameCopy. create_from book (fen book (game analysed)) = Some gameCopy \<longrightarrow>
      move book gameCopy (Some (FromTo ''e7'' ''e4'' ''q'')) = None"
    by simp
  from illegal_move_ignored [OF this] copy rejected show ?thesis
    by simp
qed

section \<open>Properties of the analysis request\<close>

text \<open>\<^verbatim>\<open>analyzeGame\<close> sends one request, whatever the reply.\<close>

lemma analyzeGame_sends:
  "snd (analyzeGame generateContent JSON_parse p) = [''Please analyze this chess game: '' @ p]"
  by (simp add: analyzeGame_def request_def split: ai_reply.splits sum.splits)

text \<open>
  Claim C6. With an empty PGN text and an empty move list, \<^verbatim>\<open>startAnalysis\<close> sets the fixed
  validation message and sends nothing. In every other state it calls \<^verbatim>\<open>analyzeGame\<close> for
  the PGN text or, when that is empty, for the PGN of the game on the board: the requests
  of the step are those of that call, one request to the AI service, and the state it
  leaves is the one the reply to that request decides. A reply that parses becomes the
  analysis; a rejected request or a reply that does not parse gives the fixed failure
  message.
\<close>

theorem analysis_guard:
  "(pgn s = [] \<and> moveHistory s = [] \<longrightarrow>
      startAnalysis E generateContent JSON_parse s
        = (s\<lparr>error := Some ''Please input some moves or upload a game first.''\<rparr>, []))
   \<and> (\<not> (pgn s = [] \<and> moveHistory s = []) \<longrightarrow>
        (let arg = (if pgn s \<noteq> [] then pgn s else pgn_of E (game s));
             sent = [''Please analyze this chess game: '' @ arg];
             failed = s\<lparr>analysis := JNull, error := Some ''Analysis failed. Please try again.'',
                         isAnalyzing := False\<rparr>
         in snd (startAnalysis E generateContent JSON_parse s)
              = snd (analyzeGame generateContent JSON_parse arg)
            \<and> startAnalysis E generateContent JSON_parse s
                = (case generateContent (''Please analyze this chess game: '' @ arg) of
                     AiRejected e \<Rightarrow> (failed, sent)
                   | AiResponse reply \<Rightarrow>
                       (case JSON_parse (to_string reply) of
                          Inl e \<Rightarrow> (failed, sent)
                        | Inr result \<Rightarrow>
                            (s\<lparr>analysis := result, error := None, activeTab := AnalysisTab,
                               isAnalyzing := False\<rparr>, sent)))))"
proof (intro conjI impI)
  assume "pgn s = [] \<and> moveHistory s = []"
  then show "startAnalysis E generateContent JSON_parse s
      = (s\<lparr>error := Some ''Please input some moves or upload a game first.''\<rparr>, [])"
    by (simp add: startAnalysis_def)
next
  assume "\<not> (pgn s = [] \<and> moveHistory s = [])"
  then have passes: "\<not> (pgn s = [] \<and> length (moveHistory s) = 0)"
    by simp
  show "let arg = (if pgn s \<noteq> [] then pgn s else pgn_of E (game s));
            sent = [''Please analyze this chess game: '' @ arg];
            failed = s\<lparr>analysis := JNull, error := Some ''Analysis failed. Please try again.'',
                        isAnalyzing := False\<rparr>
        in snd (startAnalysis E generateContent JSON_parse s)
             = snd (analyzeGame generateContent JSON_parse arg)
           \<and> startAnalysis E generateContent JSON_parse s
               = (case generateContent (''Please analyze this chess game: '' @ arg) of
                    AiRejected e \<Rightarrow> (failed, sent)
                  | AiResponse reply \<Rightarrow>
                      (case JSON_parse (to_string reply) of
                         Inl e \<Rightarrow> (failed, sent)
                       | Inr result \<Rightarrow>
                           (s\<lparr>analysis := result, error := None, activeTab := AnalysisTab,
                              isAnalyzing := False\<rparr>, sent)))"
    unfolding Let_def startAnalysis_def analyzeGame_def request_def if_not_P [OF passes]
    by (simp split: ai_reply.splits sum.splits)
qed

theorem analysis_guard_witness:
  "pgn (initial_session book) = [] \<and> moveHistory (initial_session book) = []
   \<and> startAnalysis book (always (AiResponse (Some no_endgame_text))) json_parse (initial_session book)
       = ((initial_session book)\<lparr>error := Some ''Please input some moves or upload a game first.''\<rparr>, [])
   \<and> pgn analysed = ''1. e4''
   \<and> startAnalysis book (always (AiResponse (Some no_endgame_text))) json_parse analysed
       = (analysed\<lparr>analysis := no_endgame, error := None, activeTab := AnalysisTab,
                   isAnalyzing := False\<rparr>,
          [''Please analyze this chess game: 1. e4''])
   \<and> startAnalysis book (always (AiRejected (Error ''quota''))) json_parse analysed
       = (analysed\<lparr>analysis := JNull, error := Some ''Analysis failed. Please try again.'',
                   isAnalyzing := False\<rparr>,
          [''Please analyze this chess game: 1. e4''])
   \<and> pgn (analysed\<lparr>pgn := []\<rparr>) = [] \<and> moveHistory (analysed\<lparr>pgn := []\<rparr>) = [''e4'']
   \<and> snd (startAnalysis book (always (AiResponse (Some no_endgame_text))) json_parse
            (analysed\<lparr>pgn := []\<rparr>))
       = [''Please analyze this chess game: 1. e4'']"
proof -
  have blank: "pgn (initial_session book) = []" "moveHistory (initial_session book) = []"
    by (simp_all add: initial_session_def)
  have loaded: "pgn analysed = ''1. e4''" "moveHistory analysed = [''e4'']"
    by (simp_all add: analysed_def)
  have board: "pgn_of book (game analysed) = ''1. e4''"
    by code_simp
  have readable: "json_parse (to_string (Some no_endgame_text)) = Inr no_endgame"
    by code_simp
  from analysis_guard [of "initial_session book" book
      "always (AiResponse (Some no_endgame_text))" json_parse] blank
  have refused: "startAnalysis book (always (AiResponse (Some no_endgame_text))) json_parse
      (initial_session book)
       = ((initial_session book)\<lparr>error := Some ''Please input some moves or upload a game first.''\<rparr>, [])"
    by simp
  from analysis_guard [of analysed book "always (AiResponse (Some no_endgame_text))" json_parse]
    loaded readable
  have answered: "startAnalysis book (always (AiResponse (Some no_endgame_text))) json_parse analysed
       = (analysed\<lparr>analysis := no_endgame, error := None, activeTab := AnalysisTab,
                   isAnalyzing := False\<rparr>,
          [''Please analyze this chess game: 1. e4''])"
    by (simp add: always_def Let_def)
  from analysis_guard [of analysed book "always (AiRejected (Error ''quota''))" json_parse] loaded
  have rejected: "startAnalysis book (always (AiRejected (Error ''quota''))) json_parse analysed
       = (analysed\<lparr>analysis := JNull, error := Some ''Analysis failed. Please try again.'',
                   isAnalyzing := False\<rparr>,
          [''Please analyze this chess game: 1. e4''])"
    by (simp add: always_def Let_def)
  from analysis_guard [of "analysed\<lparr>pgn := []\<rparr>" book
      "always (AiResponse (Some no_endgame_text))" json_parse] loaded board readable
  have sent_board: "snd (startAnalysis book (always (AiResponse (Some no_endgame_text))) json_parse
            (analysed\<lparr>pgn := []\<rparr>))
       = [''Please analyze this chess game: 1. e4'']"
    by (simp add: Let_def always_def)
  from blank loaded refused answered rejected sent_board show ?thesis
    by simp
qed

text \<open>
  Claim C1, as amended. If \<^verbatim>\<open>JSON.parse\<close> throws on the text of the response,
  \<^verbatim>\<open>analyzeGame\<close> fails with \<open>InvalidAnalysisFormat\<close>. If it returns a value,
  \<^verbatim>\<open>analyzeGame\<close> returns that value, whichever fields it has. After a request that passed
  the guard and failed, the analysis of the session is \<^verbatim>\<open>null\<close>, whatever it was before,
  the error is the fixed message, and nothing else has changed.
\<close>

theorem analysis_failure:
  "(generateContent (''Please analyze this chess game: '' @ p) = AiResponse reply \<longrightarrow>
      (JSON_parse (to_string reply) = Inl e \<longrightarrow>
         fst (analyzeGame generateContent JSON_parse p) = Inl InvalidAnalysisFormat)
      \<and> (JSON_parse (to_string reply) = Inr v \<longrightarrow>
           fst (analyzeGame generateContent JSON_parse p) = Inr v))
   \<and> (\<not> (pgn s = [] \<and> moveHistory s = []) \<longrightarrow>
        fst (analyzeGame generateContent JSON_parse
               (if pgn s \<noteq> [] then pgn s else pgn_of E (game s))) = Inl e' \<longrightarrow>
        fst (startAnalysis E generateContent JSON_parse s)
          = s\<lparr>analysis := JNull, error := Some ''Analysis failed. Please try again.'',
               isAnalyzing := False\<rparr>)"
proof (intro conjI impI)
  assume "generateContent (''Please analyze this chess game: '' @ p) = AiResponse reply"
    and "JSON_parse (to_string reply) = Inl e"
  then show "fst (analyzeGame generateContent JSON_parse p) = Inl InvalidAnalysisFormat"
    by (simp add: analyzeGame_def request_def)
next
  assume "generateContent (''Please analyze this chess game: '' @ p) = AiResponse reply"
    and "JSON_parse (to_string reply) = Inr v"
  then show "fst (analyzeGame generateContent JSON_parse p) = Inr v"
    by (simp add: analyzeGame_def request_def)
next
  assume passes: "\<not> (pgn s = [] \<and> moveHistory s = [])"
    and failed: "fst (analyzeGame generateContent JSON_parse
        (if pgn s \<noteq> [] then pgn s else pgn_of E (game s))) = Inl e'"
  from failed obtain requests
    where outcome: "analyzeGame generateContent JSON_parse
        (if pgn s \<noteq> [] then pgn s else pgn_of E (game s)) = (Inl e', requests)"
    by (cases "analyzeGame generateContent JSON_parse
        (if pgn s \<noteq> [] then pgn s else pgn_of E (game s))") simp
  from passes have guard: "\<not> (pgn s = [] \<and> length (moveHistory s) = 0)"
    by simp
  show "fst (startAnalysis E generateContent JSON_parse s)
      = s\<lparr>analysis := JNull, error := Some ''Analysis failed. Please try again.'',
           isAnalyzing := False\<rparr>"
    unfolding startAnalysis_def Let_def if_not_P [OF guard] outcome by simp
qed

theorem analysis_failure_witness:
  "json_parse (to_string (Some cut_off_text)) = Inl (SyntaxError ''Unexpected token in JSON'')
   \<and> fst (analyzeGame (always (AiResponse (Some cut_off_text))) json_parse ''1. e4'')
       = Inl InvalidAnalysisFormat
   \<and> json_parse (to_string (Some no_endgame_text)) = Inr no_endgame
   \<and> fst (analyzeGame (always (AiResponse (Some no_endgame_text))) json_parse ''1. e4'')
       = Inr no_endgame
   \<and> pgn analysed = ''1. e4''
   \<and> fst (startAnalysis book (always (AiResponse (Some cut_off_text))) json_parse analysed)
       = analysed\<lparr>analysis := JNull, error := Some ''Analysis failed. Please try again.'',
                  isAnalyzing := False\<rparr>"
proof -
  have unreadable: "json_parse (to_string (Some cut_off_text))
      = Inl (SyntaxError ''Unexpected token in JSON'')"
    by code_simp
  have readable: "json_parse (to_string (Some no_endgame_text)) = Inr no_endgame"
    by code_simp
  have loaded: "pgn analysed = ''1. e4''"
    by (simp add: analysed_def)
  from analysis_failure [of "always (AiResponse (Some cut_off_text))" "''1. e4''"
      "Some cut_off_text" json_parse "SyntaxError ''Unexpected token in JSON''" _ analysed book]
    unreadable
  have failed: "fst (analyzeGame (always (AiResponse (Some cut_off_text))) json_parse ''1. e4'')
      = Inl InvalidAnalysisFormat"
    by (simp add: always_def)
  from analysis_failure [of "always (AiResponse (Some no_endgame_text))" "''1. e4''"
      "Some no_endgame_text" json_parse _ no_endgame analysed book] readable
  have passed: "fst (analyzeGame (always (AiResponse (Some no_endgame_text))) json_parse ''1. e4'')
      = Inr no_endgame"
    by (simp add: always_def)
  from analysis_failure [of "always (AiResponse (Some cut_off_text))" "''1. e4''"
      "Some cut_off_text" json_parse "SyntaxError ''Unexpected token in JSON''" _ analysed book
      InvalidAnalysisFormat] loaded failed
  have cleared: "fst (startAnalysis book (always (AiResponse (Some cut_off_text))) json_parse analysed)
       = analysed\<lparr>analysis := JNull, error := Some ''Analysis failed. Please try again.'',
                  isAnalyzing := False\<rparr>"
    by simp
  from unreadable failed readable passed loaded cleared show ?thesis
    by simp
qed

text \<open>
  The claim as first stated fails on both counts. A response that parses but has no
  \<^verbatim>\<open>endgame\<close> field is returned as the analysis; and a request that fails on an unreadable
  response leaves \<^verbatim>\<open>null\<close> where the previous analysis was.
\<close>

theorem analysis_failure_counterexample:
  "fst (analyzeGame (always (AiResponse (Some no_endgame_text))) json_parse ''1. e4'')
     = Inr no_endgame
   \<and> \<not> has_field no_endgame ''endgame''
   \<and> fst (analyzeGame (always (AiResponse (Some cut_off_text))) json_parse (pgn analysed))
       = Inl InvalidAnalysisFormat
   \<and> analysis analysed = JObject [(''overallAdvice'', JString ''castle early'')]
   \<and> analysis (fst (startAnalysis book (always (AiResponse (Some cut_off_text))) json_parse analysed))
       = JNull"
proof -
  have readable: "json_parse no_endgame_text = Inr no_endgame"
    by code_simp
  have unreadable: "json_parse cut_off_text = Inl (SyntaxError ''Unexpected token in JSON'')"
    by code_simp
  have passed: "fst (analyzeGame (always (AiResponse (Some no_endgame_text))) json_parse ''1. e4'')
      = Inr no_endgame"
    by (simp add: analyzeGame_def request_def always_def to_string_def readable)
  have missing: "\<not> has_field no_endgame ''endgame''"
    by (simp add: has_field_def no_endgame_def)
  have whole: "analyzeGame (always (AiResponse (Some cut_off_text))) json_parse (pgn analysed)
      = (Inl InvalidAnalysisFormat, [''Please analyze this chess game: '' @ pgn analysed])"
    by (simp add: analyzeGame_def request_def always_def to_string_def unreadable)
  then have failed: "fst (analyzeGame (always (AiResponse (Some cut_off_text))) json_parse
      (pgn analysed)) = Inl InvalidAnalysisFormat"
    by simp
  have before: "analysis analysed = JObject [(''overallAdvice'', JString ''castle early'')]"
    by (simp add: analysed_def)
  have loaded: "pgn analysed \<noteq> []"
    by (simp add: analysed_def)
  from whole loaded
  have cleared: "analysis (fst (startAnalysis book (always (AiResponse (Some cut_off_text)))
      json_parse analysed)) = JNull"
    by (simp add: startAnalysis_def Let_def)
  from passed missing failed before cleared show ?thesis
    by simp
qed

section \<open>Properties of the chat\<close>

text \<open>
  Claim C7. When the input is empty or white space only, and also when a reply is awaited,
  \<^verbatim>\<open>handleSendChat\<close> leaves the state as it is, the transcript included, and makes no call
  of the AI client.
\<close>

theorem chat_guard:
  assumes "(\<forall>c\<in>set (userQuery s). js_whitespace c) \<or> isThinking s"
  shows "handleSendChat E chatWithAssistant s = (s, [])"
proof -
  from assms have "trim (userQuery s) = [] \<or> isThinking s"
    by (auto simp: trim_whitespace_only)
  then show ?thesis
    by (simp add: handleSendChat_def)
qed

theorem chat_guard_witness:
  "js_whitespace CHR 0x20 \<and> js_whitespace CHR 0x09
   \<and> handleSendChat book (always (Inr ''Develop your knights.''))
        (analysed\<lparr>userQuery := [CHR 0x20, CHR 0x09]\<rparr>)
       = (analysed\<lparr>userQuery := [CHR 0x20, CHR 0x09]\<rparr>, [])
   \<and> handleSendChat book (always (Inr ''Develop your knights.'')) (analysed\<lparr>userQuery := []\<rparr>)
       = (analysed\<lparr>userQuery := []\<rparr>, [])
   \<and> handleSendChat book (always (Inr ''Develop your knights.''))
        (analysed\<lparr>userQuery := ''Why e4?'', isThinking := True\<rparr>)
       = (analysed\<lparr>userQuery := ''Why e4?'', isThinking := True\<rparr>, [])"
proof -
  have ws: "js_whitespace CHR 0x20" "js_whitespace CHR 0x09"
    by (simp_all add: js_whitespace_def)
  from ws chat_guard [of "analysed\<lparr>userQuery := [CHR 0x20, CHR 0x09]\<rparr>" book
      "always (Inr ''Develop your knights.'')"]
  have blank: "handleSendChat book (always (Inr ''Develop your knights.''))
        (analysed\<lparr>userQuery := [CHR 0x20, CHR 0x09]\<rparr>)
       = (analysed\<lparr>userQuery := [CHR 0x20, CHR 0x09]\<rparr>, [])"
    by simp
  from chat_guard [of "analysed\<lparr>userQuery := []\<rparr>" book "always (Inr ''Develop your knights.'')"]
  have empty: "handleSendChat book (always (Inr ''Develop your knights.''))
        (analysed\<lparr>userQuery := []\<rparr>) = (analysed\<lparr>userQuery := []\<rparr>, [])"
    by simp
  from chat_guard [of "analysed\<lparr>userQuery := ''Why e4?'', isThinking := True\<rparr>" book
      "always (Inr ''Develop your knights.'')"]
  have waiting: "handleSendChat book (always (Inr ''Develop your knights.''))
        (analysed\<lparr>userQuery := ''Why e4?'', isThinking := True\<rparr>)
       = (analysed\<lparr>userQuery := ''Why e4?'', isThinking := True\<rparr>, [])"
    by simp
  from ws blank empty waiting show ?thesis
    by simp
qed

section \<open>Properties of reset\<close>

text \<open>
  Claim C2, as amended. \<^verbatim>\<open>resetGame\<close> returns the board, the PGN text, the move list, the
  index, the analysis, the chat transcript and the error to their initial values, from
  every state. It leaves the input mode and the username as they are, and so the selector,
  the tab, the chat input and the loading flags.
\<close>

theorem reset_restores_the_game:
  "(let r = resetGame E s; initial = initial_session E in
      game r = game initial \<and> pgn r = pgn initial \<and> moveHistory r = moveHistory initial
      \<and> currentMoveIndex r = currentMoveIndex initial \<and> analysis r = analysis initial
      \<and> chatMessages r = chatMessages initial \<and> error r = error initial
      \<and> inputMode r = inputMode s \<and> username r = username s
      \<and> recentGames r = recentGames s \<and> isSearchingLichess r = isSearchingLichess s
      \<and> showGameSelector r = showGameSelector s \<and> isAnalyzing r = isAnalyzing s
      \<and> activeTab r = activeTab s \<and> userQuery r = userQuery s \<and> isThinking r = isThinking s)"
  by (simp add: resetGame_def rerender_def pgn_effect_def initial_session_def Let_def)

text \<open>
  The claim as first stated counts the input mode and the username among the state that
  reset returns to its initial value; they keep the values they had.
\<close>

theorem reset_counterexample:
  "inputMode (resetGame book (analysed\<lparr>inputMode := Lichess, username := ''lasker''\<rparr>)) = Lichess
   \<and> inputMode (initial_session book) = Manual
   \<and> username (resetGame book (analysed\<lparr>inputMode := Lichess, username := ''lasker''\<rparr>)) = ''lasker''
   \<and> username (initial_session book) = []
   \<and> resetGame book (analysed\<lparr>inputMode := Lichess, username := ''lasker''\<rparr>) \<noteq> initial_session book"
proof -
  have mode: "inputMode (resetGame book (analysed\<lparr>inputMode := Lichess, username := ''lasker''\<rparr>))
      = Lichess"
    and name: "username (resetGame book (analysed\<lparr>inputMode := Lichess, username := ''lasker''\<rparr>))
      = ''lasker''"
    by (simp_all add: resetGame_def rerender_def pgn_effect_def)
  have initial: "inputMode (initial_session book) = Manual" "username (initial_session book) = []"
    by (simp_all add: initial_session_def)
  from mode initial have "resetGame book (analysed\<lparr>inputMode := Lichess, username := ''lasker''\<rparr>)
      \<noteq> initial_session book"
    by auto
  with mode name initial show ?thesis
    by simp
qed

section \<open>The invariant of the replay cursor\<close>

text \<open>The index stays in range under every action.\<close>

lemma pgn_effect_in_range: "index_in_range s \<Longrightarrow> index_in_range (pgn_effect E s)"
  by (simp add: pgn_effect_def index_in_range_def split: option.splits)

lemma rerender_in_range:
  assumes "index_in_range new"
  shows "index_in_range (rerender E old new)"
  using assms by (simp add: rerender_def pgn_effect_in_range)

lemma navigateToMove_in_range:
  assumes "index_in_range s" and "-1 \<le> index" and "index < int (length (moveHistory s))"
  shows "index_in_range (navigateToMove E index s)"
  using assms by (simp add: navigateToMove_def index_in_range_def split: option.splits)

lemma makeAMove_in_range:
  assumes "index_in_range s"
  shows "index_in_range (snd (makeAMove E mv s))"
proof -
  have "index_in_range (s\<lparr>game := g, pgn := p, error := None\<rparr>)" for g p
    using assms by (simp add: index_in_range_def)
  then show ?thesis
    using assms by (simp add: makeAMove_def rerender_in_range split: option.splits)
qed

lemma step_in_range:
  assumes "index_in_range s"
  shows "index_in_range (step E s a)"
proof (cases a)
  case (Upload chosen)
  have "index_in_range (s\<lparr>pgn := p, inputMode := Pgn\<rparr>)" for p
    using assms by (simp add: index_in_range_def)
  with Upload assms show ?thesis
    by (simp add: handlePgnUpload_def rerender_in_range split: option.splits)
next
  case (Select gameId reply)
  have loaded: "index_in_range
      (s\<lparr>showGameSelector := False, pgn := p, inputMode := Lichess, isAnalyzing := False\<rparr>)" for p
    using assms by (simp add: index_in_range_def)
  have failed: "index_in_range
      (s\<lparr>showGameSelector := False, error := Some m, isAnalyzing := False\<rparr>)" for m
    using assms by (simp add: index_in_range_def)
  from Select loaded failed show ?thesis
    by (simp add: selectLichessGame_def rerender_in_range split: sum.splits)
next
  case (Drop sourceSquare targetSquare)
  with assms show ?thesis
    by (simp add: onDrop_def makeAMove_in_range)
next
  case Previous
  show ?thesis
  proof (cases "currentMoveIndex s < 0")
    case True
    with Previous assms show ?thesis
      by simp
  next
    case False
    with assms have "-1 \<le> currentMoveIndex s - 1"
      and "currentMoveIndex s - 1 < int (length (moveHistory s))"
      by (simp_all add: index_in_range_def)
    from navigateToMove_in_range [OF assms this] Previous False show ?thesis
      by simp
  qed
next
  case Next
  show ?thesis
  proof (cases "currentMoveIndex s \<ge> int (length (moveHistory s)) - 1")
    case True
    with Next assms show ?thesis
      by simp
  next
    case False
    with assms have "-1 \<le> currentMoveIndex s + 1"
      and "currentMoveIndex s + 1 < int (length (moveHistory s))"
      by (simp_all add: index_in_range_def)
    from navigateToMove_in_range [OF assms this] Next False show ?thesis
      by simp
  qed
next
  case (Goto idx)
  show ?thesis
  proof (cases "idx < length (moveHistory s)")
    case True
    then have "-1 \<le> int idx" and "int idx < int (length (moveHistory s))"
      by simp_all
    from navigateToMove_in_range [OF assms this] Goto True show ?thesis
      by simp
  next
    case False
    with Goto assms show ?thesis
      by simp
  qed
next
  case Reset
  have "index_in_range
      (s\<lparr>game := create E, pgn := [], moveHistory := [], currentMoveIndex := -1,
         analysis := JNull, chatMessages := [], error := None\<rparr>)"
    by (simp add: index_in_range_def)
  with Reset show ?thesis
    by (simp add: resetGame_def rerender_in_range)
qed

lemma run_in_range: "index_in_range (run E actions)"
proof (induction actions rule: rev_induct)
  case Nil
  show ?case
    by (simp add: run_def initial_session_def index_in_range_def)
next
  case (snoc a actions)
  then show ?case
    by (simp add: run_def step_in_range)
qed

text \<open>
  The board does not always follow the index. In any chess library, take a move that is
  legal in the starting position, whose PGN loads as a game of that one move: drop it on
  the board, press the left arrow, and drop it again. The second drop sets \<^verbatim>\<open>pgn\<close> to
  the text it already holds, so the effect does not run, and the index stays at -1 under
  the new board.
\<close>

lemma drop_back_drop:
  assumes copy: "create_from E (fen E (create E)) = Some gameCopy"
    and legal: "move E gameCopy (Some (FromTo a b ''q'')) = Some moved"
    and printed: "pgn_of E moved \<noteq> []"
    and loaded: "loadPgn E (create E) (pgn_of E moved) = Some tempGame"
    and single: "history E tempGame = [m]"
  shows "run E [Drop a b, Previous, Drop a b]
      = (initial_session E)
          \<lparr>game := moved, pgn := pgn_of E moved, moveHistory := [m], currentMoveIndex := -1\<rparr>"
proof -
  have first: "step E (initial_session E) (Drop a b)
      = (initial_session E)
          \<lparr>game := tempGame, pgn := pgn_of E moved, moveHistory := [m], currentMoveIndex := 0\<rparr>"
    using assms
    by (simp add: onDrop_def makeAMove_def rerender_def pgn_effect_def initial_session_def)
  have loop: "replay_loop E [m] (-1) 0 (create E) = Some (create E)"
    by (simp add: replay_loop.simps [of E "[m]" "-1" 0 "create E"])
  have arrow: "step E ((initial_session E)
          \<lparr>game := tempGame, pgn := pgn_of E moved, moveHistory := [m], currentMoveIndex := 0\<rparr>)
        Previous
      = (initial_session E)
          \<lparr>game := create E, pgn := pgn_of E moved, moveHistory := [m], currentMoveIndex := -1\<rparr>"
    using printed loaded single loop
    by (simp add: navigateToMove_def initial_session_def)
  have second: "step E ((initial_session E)
          \<lparr>game := create E, pgn := pgn_of E moved, moveHistory := [m], currentMoveIndex := -1\<rparr>)
        (Drop a b)
      = (initial_session E)
          \<lparr>game := moved, pgn := pgn_of E moved, moveHistory := [m], currentMoveIndex := -1\<rparr>"
    using copy legal
    by (simp add: onDrop_def makeAMove_def rerender_def initial_session_def)
  show ?thesis
    by (simp only: run_def foldl_Cons foldl_Nil first arrow second)
qed

lemma drop_back_drop_out_of_step:
  assumes "create_from E (fen E (create E)) = Some gameCopy"
    and "move E gameCopy (Some (FromTo a b ''q'')) = Some moved"
    and "pgn_of E moved \<noteq> []"
    and "loadPgn E (create E) (pgn_of E moved) = Some tempGame"
    and "history E tempGame = [m]"
    and "fen E moved \<noteq> fen E (create E)"
  shows "\<not> board_is_replay E (run E [Drop a b, Previous, Drop a b])"
  using assms(6) unfolding drop_back_drop [OF assms(1-5)]
  by (simp add: board_is_replay_def replayed_position_def)

text \<open>
  Claim C3. The first part of the invariant holds in every reachable state
  (\<open>run_in_range\<close>). The second part does not: after e2-e4, the left arrow and e2-e4
  again, the board shows the position after 1. e4 while the index is -1, which stands for
  the starting position.
\<close>

theorem board_out_of_step:
  "currentMoveIndex (run book [Drop ''e2'' ''e4'', Previous, Drop ''e2'' ''e4'']) = -1
   \<and> moveHistory (run book [Drop ''e2'' ''e4'', Previous, Drop ''e2'' ''e4'']) = [''e4'']
   \<and> fen book (game (run book [Drop ''e2'' ''e4'', Previous, Drop ''e2'' ''e4''])) = fen1
   \<and> replayed_position book [''e4''] (-1) = Some fen0
   \<and> fen1 \<noteq> fen0
   \<and> index_in_range (run book [Drop ''e2'' ''e4'', Previous, Drop ''e2'' ''e4''])
   \<and> \<not> board_is_replay book (run book [Drop ''e2'' ''e4'', Previous, Drop ''e2'' ''e4''])"
proof -
  have final: "run book [Drop ''e2'' ''e4'', Previous, Drop ''e2'' ''e4'']
      = (initial_session book)
          \<lparr>game := \<lparr>origin = fen0, played = [''e4''], current = fen1\<rparr>, pgn := ''1. e4'',
           moveHistory := [''e4''], currentMoveIndex := -1\<rparr>"
    by code_simp
  have start: "replayed_position book [''e4''] (-1) = Some fen0"
    by code_simp
  have differ: "fen1 \<noteq> fen0"
    by code_simp
  have shown: "fen book \<lparr>origin = fen0, played = [''e4''], current = fen1\<rparr> = fen1"
    by (simp add: book_def)
  from start differ shown show ?thesis
    unfolding final by (simp add: index_in_range_def board_is_replay_def)
qed

text \<open>
  Ordinary play in the opening-book library shows the same. Each drop copies the game
  through its FEN, so the copy has no moves before the one just made: after e2-e4 and
  e7-e5 the move list is the single move e5, which cannot be replayed from the starting
  position.
\<close>

lemma second_move_forgets_first:
  "moveHistory (run book [Drop ''e2'' ''e4'', Drop ''e7'' ''e5'']) = [''e5'']
   \<and> currentMoveIndex (run book [Drop ''e2'' ''e4'', Drop ''e7'' ''e5'']) = 0
   \<and> fen book (game (run book [Drop ''e2'' ''e4'', Drop ''e7'' ''e5''])) = fen2
   \<and> replayed_position book [''e5''] 0 = None"
  by code_simp

end
